theory Spec2Isabelle
  imports Complex_Main "HOL-Library.Word"
begin

unbundle bit_operations_syntax

section \<open>Shader scalars\<close>

text \<open>
  The shaders compute on \<^verbatim>\<open>float\<close> and \<open>uint\<close>.  A \<open>uint\<close> is a 32-bit word.
  A \<^verbatim>\<open>float\<close> is modelled as a finite value or one of the three special values
  of IEEE 754, with the special-value rules of the standard written out:
  a division by zero gives an infinity or, for \<open>0 / 0\<close>, a NaN; \<open>Inf - Inf\<close>,
  \<open>0 * Inf\<close> and \<open>Inf / Inf\<close> give NaN; NaN propagates through arithmetic and
  every comparison with NaN is false.  Finite values are exact reals: rounding,
  overflow of a finite operation to an infinity, and the sign of zero are
  idealised away.
\<close>

type_synonym uint = "32 word"

datatype float = Finite real | PosInf | NegInf | NaN

fun float_neg :: "float \<Rightarrow> float" where
  "float_neg (Finite x) = Finite (- x)"
| "float_neg PosInf = NegInf"
| "float_neg NegInf = PosInf"
| "float_neg NaN = NaN"

fun float_add :: "float \<Rightarrow> float \<Rightarrow> float" where
  "float_add (Finite x) (Finite y) = Finite (x + y)"
| "float_add NaN b = NaN"
| "float_add a NaN = NaN"
| "float_add PosInf NegInf = NaN"
| "float_add NegInf PosInf = NaN"
| "float_add PosInf b = PosInf"
| "float_add NegInf b = NegInf"
| "float_add a PosInf = PosInf"
| "float_add a NegInf = NegInf"

fun float_mul :: "float \<Rightarrow> float \<Rightarrow> float" where
  "float_mul (Finite x) (Finite y) = Finite (x * y)"
| "float_mul NaN b = NaN"
| "float_mul a NaN = NaN"
| "float_mul (Finite x) PosInf = (if x = 0 then NaN else if 0 < x then PosInf else NegInf)"
| "float_mul (Finite x) NegInf = (if x = 0 then NaN else if 0 < x then NegInf else PosInf)"
| "float_mul PosInf (Finite y) = (if y = 0 then NaN else if 0 < y then PosInf else NegInf)"
| "float_mul NegInf (Finite y) = (if y = 0 then NaN else if 0 < y then NegInf else PosInf)"
| "float_mul PosInf PosInf = PosInf"
| "float_mul PosInf NegInf = NegInf"
| "float_mul NegInf PosInf = NegInf"
| "float_mul NegInf NegInf = PosInf"

fun float_div :: "float \<Rightarrow> float \<Rightarrow> float" where
  "float_div (Finite x) (Finite y) =
     (if y \<noteq> 0 then Finite (x / y)
      else if 0 < x then PosInf else if x < 0 then NegInf else NaN)"
| "float_div NaN b = NaN"
| "float_div a NaN = NaN"
| "float_div (Finite x) PosInf = Finite 0"
| "float_div (Finite x) NegInf = Finite 0"
| "float_div PosInf (Finite y) = (if 0 \<le> y then PosInf else NegInf)"
| "float_div NegInf (Finite y) = (if 0 \<le> y then NegInf else PosInf)"
| "float_div PosInf b = NaN"
| "float_div NegInf b = NaN"

fun float_lt :: "float \<Rightarrow> float \<Rightarrow> bool" where
  "float_lt (Finite x) (Finite y) = (x < y)"
| "float_lt NaN b = False"
| "float_lt a NaN = False"
| "float_lt a NegInf = False"
| "float_lt PosInf b = False"
| "float_lt NegInf b = True"
| "float_lt a PosInf = True"

text \<open>The shader's \<open>==\<close>: a NaN equals nothing, itself included.\<close>

definition float_eq :: "float \<Rightarrow> float \<Rightarrow> bool" where
  "float_eq a b = (a \<noteq> NaN \<and> a = b)"

instantiation float :: "{zero, one, plus, minus, uminus, times, inverse, ord}"
begin

definition zero_float :: float where "zero_float = Finite 0"
definition one_float :: float where "one_float = Finite 1"
definition plus_float :: "float \<Rightarrow> float \<Rightarrow> float" where "plus_float a b = float_add a b"
definition uminus_float :: "float \<Rightarrow> float" where "uminus_float a = float_neg a"
definition minus_float :: "float \<Rightarrow> float \<Rightarrow> float" where
  "minus_float a b = float_add a (float_neg b)"
definition times_float :: "float \<Rightarrow> float \<Rightarrow> float" where "times_float a b = float_mul a b"
definition divide_float :: "float \<Rightarrow> float \<Rightarrow> float" where "divide_float a b = float_div a b"
definition inverse_float :: "float \<Rightarrow> float" where "inverse_float a = float_div (Finite 1) a"
definition less_float :: "float \<Rightarrow> float \<Rightarrow> bool" where "less_float a b = float_lt a b"
definition less_eq_float :: "float \<Rightarrow> float \<Rightarrow> bool" where
  "less_eq_float a b = (float_lt a b \<or> float_eq a b)"

instance ..

end

definition isinf :: "float \<Rightarrow> bool" where
  "isinf x = (x = PosInf \<or> x = NegInf)"

definition isnan :: "float \<Rightarrow> bool" where
  "isnan x = (x = NaN)"

text \<open>
  The intrinsics \<open>min\<close> and \<open>max\<close> return the other operand when one operand
  is NaN; \<open>clamp(x, lo, hi)\<close> is \<open>min(max(x, lo), hi)\<close>.
\<close>

definition fmin :: "float \<Rightarrow> float \<Rightarrow> float" where
  "fmin a b = (if a = NaN then b else if b = NaN then a else if a < b then a else b)"

definition fmax :: "float \<Rightarrow> float \<Rightarrow> float" where
  "fmax a b = (if a = NaN then b else if b = NaN then a else if a < b then b else a)"

definition clamp :: "float \<Rightarrow> float \<Rightarrow> float \<Rightarrow> float" where
  "clamp x lo hi = fmin (fmax x lo) hi"

text \<open>
  \<open>pow(x, y)\<close> for the positive whole exponents the shaders pass (\<open>8.f\<close>),
  the exponent given as a natural number: NaN for a negative base.
\<close>

fun pow :: "float \<Rightarrow> nat \<Rightarrow> float" where
  "pow (Finite x) n = (if x < 0 then NaN else Finite (x ^ n))"
| "pow PosInf n = PosInf"
| "pow NegInf n = NaN"
| "pow NaN n = NaN"

text \<open>Conversions \<open>float(u)\<close> and \<open>uint(f)\<close>; the latter truncates and saturates,
  and sends NaN to 0.\<close>

definition float_of_uint :: "uint \<Rightarrow> float" where
  "float_of_uint u = Finite (real (unat u))"

fun uint_of_float :: "float \<Rightarrow> uint" where
  "uint_of_float (Finite x) =
     (if x \<le> 0 then 0 else if 2 ^ 32 \<le> x then - 1 else of_nat (nat \<lfloor>x\<rfloor>))"
| "uint_of_float PosInf = - 1"
| "uint_of_float NegInf = 0"
| "uint_of_float NaN = 0"

type_synonym float3 = "float \<times> float \<times> float"

definition float3_zero :: float3 where
  "float3_zero = (0, 0, 0)"

definition float3_scale :: "float \<Rightarrow> float3 \<Rightarrow> float3" where
  "float3_scale k v = (case v of (x, y, z) \<Rightarrow> (k * x, k * y, k * z))"

section \<open>Light samples\<close>

text \<open>
  Modelled from the spec: the declaration of \<open>LightSample\<close> is not among the
  sources.  The spec gives it as a tagged union with a kind in
  \<open>{Invalid, Environment, Emissive, Analytic}\<close>, an index and a position
  payload; \<open>createInvalid\<close> makes the sample of kind \<open>Invalid\<close> and
  \<open>isValid\<close> tests for any other kind.
\<close>

datatype LightKind = Invalid | Environment | Emissive | Analytic

record LightSample =
  kind :: LightKind
  index :: uint
  uv :: "float \<times> float"

definition createInvalid :: LightSample where
  "createInvalid = \<lparr>kind = Invalid, index = 0, uv = (0, 0)\<rparr>"

definition isValid :: "LightSample \<Rightarrow> bool" where
  "isValid ls = (kind ls \<noteq> Invalid)"

section \<open>Reservoir.slang\<close>

text \<open>The fields of \<open>Reservoir\<close> carry the prefix \<open>r_\<close>, those of \<open>RisState\<close>
  the prefix \<open>s_\<close>.\<close>

record Reservoir =
  r_lightSample :: LightSample
  r_M :: uint
  r_weight :: float
  r_pathSample :: uint
  r_targetPdf :: float

definition Reservoir_createEmpty :: "uint \<Rightarrow> Reservoir" where
  "Reservoir_createEmpty pathSample =
     \<lparr>r_lightSample = createInvalid, r_M = uint_of_float 0, r_weight = 0,
      r_pathSample = pathSample, r_targetPdf = 0\<rparr>"

definition isLightSampleValid :: "Reservoir \<Rightarrow> bool" where
  "isLightSampleValid r = isValid (r_lightSample r)"

section \<open>Resampling.slang\<close>

record RisState =
  s_lightSample :: LightSample
  s_pathSample :: uint
  s_weightSum :: float
  s_M :: float
  s_weight :: float
  s_targetPdf :: float
  s_canonicalWeight :: float

definition RisState_createEmpty :: "uint \<Rightarrow> RisState" where
  "RisState_createEmpty pathSample =
     \<lparr>s_lightSample = createInvalid, s_pathSample = pathSample, s_weightSum = 0,
      s_M = 0, s_weight = 0, s_targetPdf = 0, s_canonicalWeight = 0\<rparr>"

definition RisState_createEmpty_from :: "Reservoir \<Rightarrow> RisState" where
  "RisState_createEmpty_from reservoir = RisState_createEmpty (r_pathSample reservoir)"

definition toReservoir :: "RisState \<Rightarrow> Reservoir" where
  "toReservoir state =
     (let reservoir = \<lparr>r_lightSample = s_lightSample state, r_M = uint_of_float (s_M state),
                       r_weight = s_weight state, r_pathSample = s_pathSample state,
                       r_targetPdf = s_targetPdf state\<rparr>
      in if isinf (r_weight reservoir) \<or> isnan (r_weight reservoir)
         then Reservoir_createEmpty (s_pathSample state)
         else reservoir)"

text \<open>
  The sample generator is external; each function that calls \<open>sampleNext1D(sg)\<close>
  takes the drawn value \<open>u\<close> as an argument.  A function with an \<open>inout\<close>
  state returns its result paired with the new state.
\<close>

definition streamingInitialResampleMIS_pHat ::
  "RisState \<Rightarrow> LightSample \<Rightarrow> float \<Rightarrow> float \<Rightarrow> float \<Rightarrow> float \<Rightarrow> float \<Rightarrow> bool \<times> RisState" where
  "streamingInitialResampleMIS_pHat state lightSample targetPdf sourcePdf misWeight
       pHat_withoutAlbedo u =
     (let sampleWeight = misWeight * targetPdf / sourcePdf;
          state1 = state\<lparr>s_weightSum := s_weightSum state + sampleWeight\<rparr>;
          state2 = state1\<lparr>s_M := s_M state1 + 1\<rparr>;
          selectSample = (u * s_weightSum state2 < sampleWeight)
      in (selectSample,
          if selectSample
          then state2\<lparr>s_lightSample := lightSample, s_targetPdf := targetPdf\<rparr>
          else state2))"

definition streamingInitialResampleMIS ::
  "RisState \<Rightarrow> LightSample \<Rightarrow> float \<Rightarrow> float \<Rightarrow> float \<Rightarrow> float \<Rightarrow> bool \<times> RisState" where
  "streamingInitialResampleMIS state lightSample targetPdf sourcePdf misWeight u =
     (let sampleWeight = misWeight * targetPdf / sourcePdf;
          state1 = state\<lparr>s_weightSum := s_weightSum state + sampleWeight\<rparr>;
          state2 = state1\<lparr>s_M := s_M state1 + 1\<rparr>;
          selectSample = (u * s_weightSum state2 < sampleWeight)
      in (selectSample,
          if selectSample
          then state2\<lparr>s_lightSample := lightSample, s_targetPdf := targetPdf\<rparr>
          else state2))"

definition streamingInitialResampleMIS_path ::
  "RisState \<Rightarrow> uint \<Rightarrow> float \<Rightarrow> float \<Rightarrow> float \<Rightarrow> float \<Rightarrow> bool \<times> RisState" where
  "streamingInitialResampleMIS_path state pathSample targetPdf sourcePdf misWeight u =
     (let sampleWeight = misWeight * targetPdf / sourcePdf;
          state1 = state\<lparr>s_weightSum := s_weightSum state + sampleWeight\<rparr>;
          state2 = state1\<lparr>s_M := s_M state1 + 1\<rparr>;
          selectSample = (u * s_weightSum state2 < sampleWeight)
      in (selectSample,
          if selectSample
          then state2\<lparr>s_pathSample := pathSample, s_targetPdf := targetPdf\<rparr>
          else state2))"

definition mFactor :: "float \<Rightarrow> float \<Rightarrow> float" where
  "mFactor q0 q1 = (if float_eq q0 0 then 1 else clamp (pow (fmin (q1 / q0) 1) 8) 0 1)"

text \<open>The four pairwise-MIS weights, with the parameter \<open>out_J\<close> written out
  (every call site leaves it at its default \<open>1.0f\<close>).\<close>

definition pairwiseMIS_nonDefensiveNonCanonical ::
  "float \<Rightarrow> float \<Rightarrow> float \<Rightarrow> float \<Rightarrow> float \<Rightarrow> float \<Rightarrow> float" where
  "pairwiseMIS_nonDefensiveNonCanonical mSum mCandidate p_i mCanonical pc out_J =
     (let pHatFrom_i = p_i * out_J
      in if float_eq pc 0 then 0
         else mCandidate * pHatFrom_i / ((mSum - mCanonical) * pHatFrom_i + mCanonical * pc))"

definition pairwiseMIS_nonDefensiveCanonical ::
  "float \<Rightarrow> float \<Rightarrow> float \<Rightarrow> float \<Rightarrow> float \<Rightarrow> float \<Rightarrow> float" where
  "pairwiseMIS_nonDefensiveCanonical mSum mCandidate p_i mCanonical pc out_J =
     (let w = mCanonical * pc;
          pHatFrom_i = p_i * out_J
      in if float_eq pc 0 then 0
         else (mCandidate / (mSum - mCanonical)) * w / ((mSum - mCanonical) * pHatFrom_i + w))"

definition pairwiseMIS_defensiveNonCanonical ::
  "float \<Rightarrow> float \<Rightarrow> float \<Rightarrow> float \<Rightarrow> float \<Rightarrow> float \<Rightarrow> float" where
  "pairwiseMIS_defensiveNonCanonical mSum mCandidate p_i mCanonical pc out_J =
     (let pHatFrom_i = p_i * out_J;
          w = (mSum - mCanonical) * pHatFrom_i
      in if float_eq pc 0 then 0
         else (mCandidate / mSum) * w / (w + mCanonical * pc))"

definition pairwiseMIS_defensiveCanonical ::
  "float \<Rightarrow> float \<Rightarrow> float \<Rightarrow> float \<Rightarrow> float \<Rightarrow> float \<Rightarrow> float" where
  "pairwiseMIS_defensiveCanonical mSum mCandidate p_i mCanonical pc out_J =
     (let pHatFrom_i = p_i * out_J;
          w = mCanonical * pc
      in if float_eq pc 0 then 0
         else (mCandidate / mSum) * w / ((mSum - mCanonical) * pHatFrom_i + w))"

text \<open>
  The pairwise-MIS merges.  The contexts, the lights and the generator are
  external: \<open>candidateTargetPdfAtOther\<close> and \<open>canonicalTargetPdfAtOther\<close> are the
  values the two calls of \<open>evalTargetFunction\<close> return, and \<open>u\<close> is the value
  of \<open>sampleNext1D(sg)\<close>.
\<close>

definition temporalResamplePointReservoirPairwiseMIS ::
  "RisState \<Rightarrow> Reservoir \<Rightarrow> Reservoir \<Rightarrow> float \<Rightarrow> float \<Rightarrow> bool \<Rightarrow> float \<Rightarrow> float \<Rightarrow> float
     \<Rightarrow> bool \<times> RisState" where
  "temporalResamplePointReservoirPairwiseMIS state canonicalReservoir candidateReservoir
       candidateTargetPdfAtOther canonicalTargetPdfAtOther useMFactor confidenceWeightSum
       intersectAreaSize u =
     (let canonicalTargetPdf = r_targetPdf canonicalReservoir;
          candidateTargetPdf = r_targetPdf candidateReservoir;
          candidateConfidenceWeight = float_of_uint (r_M candidateReservoir) * intersectAreaSize;
          m0 = pairwiseMIS_nonDefensiveNonCanonical confidenceWeightSum candidateConfidenceWeight
                 candidateTargetPdf (float_of_uint (r_M canonicalReservoir))
                 candidateTargetPdfAtOther 1;
          m1 = pairwiseMIS_nonDefensiveCanonical confidenceWeightSum candidateConfidenceWeight
                 canonicalTargetPdfAtOther (float_of_uint (r_M canonicalReservoir))
                 canonicalTargetPdf 1;
          sampleWeight = candidateTargetPdfAtOther * r_weight candidateReservoir * m0;
          mScaler = fmin (mFactor candidateTargetPdf candidateTargetPdfAtOther)
                         (mFactor canonicalTargetPdfAtOther canonicalTargetPdf);
          state1 = state\<lparr>s_M := s_M state
                      + candidateConfidenceWeight * (if useMFactor then mScaler else 1)\<rparr>;
          state2 = state1\<lparr>s_weightSum := s_weightSum state1 + sampleWeight\<rparr>;
          state3 = state2\<lparr>s_canonicalWeight := s_canonicalWeight state2 + m1\<rparr>;
          selectSample = (u * s_weightSum state3 < sampleWeight)
      in (selectSample,
          if selectSample
          then state3\<lparr>s_lightSample := r_lightSample candidateReservoir,
                      s_targetPdf := candidateTargetPdfAtOther\<rparr>
          else state3))"

definition spatialResamplePointReservoirPairwiseMIS ::
  "RisState \<Rightarrow> Reservoir \<Rightarrow> Reservoir \<Rightarrow> float \<Rightarrow> float \<Rightarrow> bool \<Rightarrow> float \<Rightarrow> float
     \<Rightarrow> bool \<times> RisState" where
  "spatialResamplePointReservoirPairwiseMIS state canonicalReservoir candidateReservoir
       candidateTargetPdfAtOther canonicalTargetPdfAtOther useMFactor confidenceWeightSum u =
     (let canonicalTargetPdf = r_targetPdf canonicalReservoir;
          candidateTargetPdf = r_targetPdf candidateReservoir;
          candidateConfidenceWeight = float_of_uint (r_M candidateReservoir);
          m0 = pairwiseMIS_defensiveNonCanonical confidenceWeightSum candidateConfidenceWeight
                 candidateTargetPdf (float_of_uint (r_M canonicalReservoir))
                 candidateTargetPdfAtOther 1;
          m1 = pairwiseMIS_defensiveCanonical confidenceWeightSum candidateConfidenceWeight
                 canonicalTargetPdfAtOther (float_of_uint (r_M canonicalReservoir))
                 canonicalTargetPdf 1;
          sampleWeight = candidateTargetPdfAtOther * r_weight candidateReservoir * m0;
          mScaler = fmin (mFactor candidateTargetPdf candidateTargetPdfAtOther)
                         (mFactor canonicalTargetPdfAtOther canonicalTargetPdf);
          state1 = state\<lparr>s_M := s_M state
                      + candidateConfidenceWeight * (if useMFactor then mScaler else 1)\<rparr>;
          state2 = state1\<lparr>s_weightSum := s_weightSum state1 + sampleWeight\<rparr>;
          state3 = state2\<lparr>s_canonicalWeight := s_canonicalWeight state2 + m1\<rparr>;
          selectSample = (u * s_weightSum state3 < sampleWeight)
      in (selectSample,
          if selectSample
          then state3\<lparr>s_lightSample := r_lightSample candidateReservoir,
                      s_targetPdf := candidateTargetPdfAtOther\<rparr>
          else state3))"

definition streamingResampleFinalizeMis ::
  "RisState \<Rightarrow> Reservoir \<Rightarrow> float \<Rightarrow> float \<Rightarrow> bool \<times> RisState" where
  "streamingResampleFinalizeMis state canonicalReservoir canonicalTargetPdf u =
     (let sampleWeight = s_canonicalWeight state * canonicalTargetPdf
                           * r_weight canonicalReservoir * 1;
          state1 = state\<lparr>s_M := s_M state + float_of_uint (r_M canonicalReservoir)\<rparr>;
          state2 = state1\<lparr>s_weightSum := s_weightSum state1 + sampleWeight\<rparr>;
          selectSample = (u * s_weightSum state2 < sampleWeight)
      in (selectSample,
          if selectSample
          then state2\<lparr>s_targetPdf := canonicalTargetPdf,
                      s_lightSample := r_lightSample canonicalReservoir,
                      s_pathSample := r_pathSample canonicalReservoir\<rparr>
          else state2))"

text \<open>
  Each stage ends with the statement
  \<^verbatim>\<open>risState.weight = risState.targetPdf > 0.f ? risState.weightSum / risState.targetPdf : 0.f;\<close>
\<close>

definition finalizeWeight :: "RisState \<Rightarrow> RisState" where
  "finalizeWeight risState =
     risState\<lparr>s_weight := (if 0 < s_targetPdf risState
                             then s_weightSum risState / s_targetPdf risState else 0)\<rparr>"

text \<open>The test \<open>any(pixel >= frameDim)\<close> that opens every \<open>process\<close>.\<close>

definition outOfFrame :: "uint \<times> uint \<Rightarrow> uint \<times> uint \<Rightarrow> bool" where
  "outOfFrame pixel frameDim = (fst frameDim \<le> fst pixel \<or> snd frameDim \<le> snd pixel)"

section \<open>InitialResampling.cs.slang\<close>

text \<open>
  One streamed candidate, as the loop body sees it after the external
  evaluations: the light sample, its source pdf \<open>p\<close>, the balance-heuristic
  weight from \<open>evalBalanceHeuristicMIS\<close>, the target function value \<open>pHat\<close>,
  and the generator's draw.
\<close>

record Candidate =
  c_lightSample :: LightSample
  c_p :: float
  c_misWeight :: float
  c_pHat :: float
  c_u :: float

text \<open>
  The pass with what it reads for one pixel.  The two candidate lists have
  the lengths \<open>kInitialLightSampleCount\<close> and \<open>kInitialBRDFSampleCount\<close>;
  \<open>i_emissionTargetPdf\<close> is \<open>evalTargetFunction({}, lights, false, sg, 1)\<close>;
  \<open>i_visibility\<close> is \<open>evalVisibility\<close> of the evaluated light sample;
  \<open>i_OneMergedReservoir\<close> is the enumeration value
  \<open>ResampleEmissionMode::OneMergedReservoir\<close>, declared outside the sources.
\<close>

record InitialResampling =
  i_frameDim :: "uint \<times> uint"
  i_kCheckVisibility :: bool
  i_resampleEmissionMode :: uint
  i_OneMergedReservoir :: uint
  i_surfaceValid :: bool
  i_emissionTargetPdf :: float
  i_lightCandidates :: "Candidate list"
  i_brdfCandidates :: "Candidate list"
  i_emission_u :: float
  i_visibility :: "LightSample \<Rightarrow> float"

fun resampleLightSamples :: "RisState \<Rightarrow> Candidate list \<Rightarrow> RisState" where
  "resampleLightSamples risState [] = risState"
| "resampleLightSamples risState (c # cs) =
     resampleLightSamples
       (snd (streamingInitialResampleMIS risState (c_lightSample c) (c_pHat c) (c_p c)
               (c_misWeight c) (c_u c))) cs"

fun resampleBRDFSamples :: "RisState \<Rightarrow> Candidate list \<Rightarrow> RisState" where
  "resampleBRDFSamples risState [] = risState"
| "resampleBRDFSamples risState (c # cs) =
     (if \<not> isValid (c_lightSample c)
      then resampleBRDFSamples (risState\<lparr>s_M := s_M risState + 1\<rparr>) cs
      else resampleBRDFSamples
             (snd (streamingInitialResampleMIS risState (c_lightSample c) (c_pHat c) (c_p c)
                     (c_misWeight c) (c_u c))) cs)"

text \<open>The state after all candidates are streamed, before the visibility test.\<close>

definition InitialResampling_streamed :: "InitialResampling \<Rightarrow> RisState" where
  "InitialResampling_streamed this =
     (let risState0 = RisState_createEmpty 2;
          risState2 =
            (if i_surfaceValid this
             then (let risState1 = resampleLightSamples risState0 (i_lightCandidates this)
                   in resampleBRDFSamples risState1 (i_brdfCandidates this))
             else risState0)
      in if i_resampleEmissionMode this = i_OneMergedReservoir this
         then snd (streamingInitialResampleMIS_path risState2 1 (i_emissionTargetPdf this) 1 1
                     (i_emission_u this))
         else risState2)"

text \<open>The state that \<open>toReservoir\<close> is called on.\<close>

definition InitialResampling_risState :: "InitialResampling \<Rightarrow> RisState" where
  "InitialResampling_risState this =
     (let risState = InitialResampling_streamed this;
          risState1 =
            (if i_kCheckVisibility this \<and> isValid (s_lightSample risState)
                  \<and> s_pathSample risState = 2
             then if float_eq (i_visibility this (s_lightSample risState)) 0
                  then RisState_createEmpty 2 else risState
             else risState);
          risState2 = finalizeWeight risState1
      in risState2\<lparr>s_M := 1\<rparr>)"

text \<open>\<open>process\<close> returns the reservoir it stores for the pixel, or \<open>None\<close> when
  it returns without storing one.\<close>

definition InitialResampling_process :: "InitialResampling \<Rightarrow> uint \<times> uint \<Rightarrow> Reservoir option" where
  "InitialResampling_process this pixel =
     (if outOfFrame pixel (i_frameDim this) then None
      else if \<not> i_surfaceValid this
      then Some ((Reservoir_createEmpty 1)
                   \<lparr>r_M := 1, r_targetPdf := i_emissionTargetPdf this, r_weight := 1\<rparr>)
      else Some (toReservoir (InitialResampling_risState this)))"

section \<open>Temporal resampling\<close>

text \<open>
  The pass with what it reads for one pixel: \<open>t_prevPixelValid\<close> is
  \<open>isValidPixel(prevPixel)\<close> for the back-projected pixel, the two reservoirs
  are the ones loaded from \<open>reservoirs\<close> and \<open>prevReservoirs\<close>, the two target
  values are those computed inside the merge, and the two draws are those of
  the merge and of \<open>streamingResampleFinalizeMis\<close>.
\<close>

record TemporalResampling =
  t_kMaxHistoryLength :: uint
  t_frameDim :: "uint \<times> uint"
  t_useMFactor :: bool
  t_prevPixelValid :: bool
  t_currentReservoir :: Reservoir
  t_prevReservoir :: Reservoir
  t_candidateTargetPdfAtOther :: float
  t_canonicalTargetPdfAtOther :: float
  t_u_candidate :: float
  t_u_canonical :: float

text \<open>The previous reservoir after the statement
  \<^verbatim>\<open>prevReservoir.M = min(prevReservoir.M, currentReservoir.M * kMaxHistoryLength);\<close>\<close>

definition TemporalResampling_prevReservoir :: "TemporalResampling \<Rightarrow> Reservoir" where
  "TemporalResampling_prevReservoir this =
     (t_prevReservoir this)
       \<lparr>r_M := min (r_M (t_prevReservoir this))
                   (r_M (t_currentReservoir this) * t_kMaxHistoryLength this)\<rparr>"

definition TemporalResampling_risState :: "TemporalResampling \<Rightarrow> RisState" where
  "TemporalResampling_risState this =
     (let currentReservoir = t_currentReservoir this;
          prevReservoir = TemporalResampling_prevReservoir this;
          risState = RisState_createEmpty_from currentReservoir;
          currentTargetPdf = r_targetPdf currentReservoir;
          confidenceWeightSum = float_of_uint (r_M prevReservoir + r_M currentReservoir);
          risState1 = snd (temporalResamplePointReservoirPairwiseMIS risState currentReservoir
                             prevReservoir (t_candidateTargetPdfAtOther this)
                             (t_canonicalTargetPdfAtOther this) (t_useMFactor this)
                             confidenceWeightSum 1 (t_u_candidate this));
          risState2 = snd (streamingResampleFinalizeMis risState1 currentReservoir
                             currentTargetPdf (t_u_canonical this))
      in finalizeWeight risState2)"

definition TemporalResampling_process :: "TemporalResampling \<Rightarrow> uint \<times> uint \<Rightarrow> Reservoir option" where
  "TemporalResampling_process this pixel =
     (if outOfFrame pixel (t_frameDim this) then None
      else if \<not> t_prevPixelValid this then None
      else Some (toReservoir (TemporalResampling_risState this)))"

section \<open>Spatial resampling\<close>

text \<open>
  One neighbour of the gather loop, as the two loops see it:
  \<open>n_pixelValid\<close> is \<open>isValidPixel(neighborPixel)\<close>, \<open>n_normalDepthValid\<close> the
  result of \<open>isValidNeighbor\<close>, \<open>n_surfaceValid\<close> the validity of the
  neighbour's centre context, \<open>n_reservoir\<close> the reservoir loaded from
  \<open>prevReservoirs\<close>.
\<close>

record Neighbor =
  n_pixelValid :: bool
  n_normalDepthValid :: bool
  n_surfaceValid :: bool
  n_reservoir :: Reservoir
  n_candidateTargetPdfAtOther :: float
  n_canonicalTargetPdfAtOther :: float
  n_u :: float

record SpatialResampling =
  sp_frameDim :: "uint \<times> uint"
  sp_useMFactor :: bool
  sp_rejectNeighborPixelForNormalDepth :: bool
  sp_rejectNeighborPixelForHitType :: bool
  sp_currentReservoir :: Reservoir
  sp_currCenterSurfaceValid :: bool
  sp_neighbors :: "Neighbor list"
  sp_u_canonical :: float

text \<open>The mask \<open>1 << i\<close>; a shift uses the low five bits of its count.\<close>

definition neighborBit :: "nat \<Rightarrow> uint" where
  "neighborBit i = push_bit (i mod 32) 1"

text \<open>First loop: the confidence weight sum and the cache of valid neighbours.\<close>

fun gatherConfidenceWeights ::
  "SpatialResampling \<Rightarrow> nat \<Rightarrow> Neighbor list \<Rightarrow> float \<times> uint \<Rightarrow> float \<times> uint" where
  "gatherConfidenceWeights this i [] acc = acc"
| "gatherConfidenceWeights this i (n # ns) (confidenceWeightSum, validNeighborCache) =
     (if \<not> n_pixelValid n
      then gatherConfidenceWeights this (i + 1) ns (confidenceWeightSum, validNeighborCache)
      else if sp_rejectNeighborPixelForNormalDepth this \<and> \<not> n_normalDepthValid n
      then gatherConfidenceWeights this (i + 1) ns (confidenceWeightSum, validNeighborCache)
      else if sp_rejectNeighborPixelForHitType this
                \<and> sp_currCenterSurfaceValid this \<noteq> n_surfaceValid n
      then gatherConfidenceWeights this (i + 1) ns (confidenceWeightSum, validNeighborCache)
      else gatherConfidenceWeights this (i + 1) ns
             (confidenceWeightSum + float_of_uint (r_M (n_reservoir n)),
              validNeighborCache OR neighborBit i))"

text \<open>Second loop: the merges with the cached neighbours.\<close>

fun resampleNeighbors ::
  "SpatialResampling \<Rightarrow> float \<Rightarrow> uint \<Rightarrow> nat \<Rightarrow> Neighbor list \<Rightarrow> RisState \<Rightarrow> RisState" where
  "resampleNeighbors this confidenceWeightSum validNeighborCache i [] risState = risState"
| "resampleNeighbors this confidenceWeightSum validNeighborCache i (n # ns) risState =
     (if validNeighborCache AND neighborBit i = 0
      then resampleNeighbors this confidenceWeightSum validNeighborCache (i + 1) ns risState
      else if \<not> n_pixelValid n
      then resampleNeighbors this confidenceWeightSum validNeighborCache (i + 1) ns risState
      else resampleNeighbors this confidenceWeightSum validNeighborCache (i + 1) ns
             (snd (spatialResamplePointReservoirPairwiseMIS risState (sp_currentReservoir this)
                     (n_reservoir n) (n_candidateTargetPdfAtOther n)
                     (n_canonicalTargetPdfAtOther n) (sp_useMFactor this)
                     confidenceWeightSum (n_u n))))"

definition SpatialResampling_risState :: "SpatialResampling \<Rightarrow> RisState" where
  "SpatialResampling_risState this =
     (let currentReservoir = sp_currentReservoir this;
          risState = RisState_createEmpty_from currentReservoir;
          (confidenceWeightSum, validNeighborCache) =
             gatherConfidenceWeights this 0 (sp_neighbors this)
               (float_of_uint (r_M currentReservoir), 0);
          risState1 = risState\<lparr>s_canonicalWeight :=
                        (if 0 < confidenceWeightSum
                         then float_of_uint (r_M currentReservoir) / confidenceWeightSum
                         else 0)\<rparr>;
          risState2 = resampleNeighbors this confidenceWeightSum validNeighborCache 0
                        (sp_neighbors this) risState1;
          risState3 = snd (streamingResampleFinalizeMis risState2 currentReservoir
                             (r_targetPdf currentReservoir) (sp_u_canonical this));
          risState4 = risState3\<lparr>s_M := float_of_uint (r_M currentReservoir)\<rparr>
      in finalizeWeight risState4)"

definition SpatialResampling_process :: "SpatialResampling \<Rightarrow> uint \<times> uint \<Rightarrow> Reservoir option" where
  "SpatialResampling_process this pixel =
     (if outOfFrame pixel (sp_frameDim this) then None
      else Some (toReservoir (SpatialResampling_risState this)))"

section \<open>Final sample evaluation\<close>

record FinalSample =
  f_dir :: float3
  f_distance :: float
  f_Li :: float3
  f_pathSample :: uint
  f_misWeight :: float3

text \<open>The value of \<^verbatim>\<open>FinalSample finalSample = {};\<close>\<close>

definition FinalSample_zero :: FinalSample where
  "FinalSample_zero =
     \<lparr>f_dir = float3_zero, f_distance = 0, f_Li = float3_zero, f_pathSample = 0,
      f_misWeight = float3_zero\<rparr>"

text \<open>The fields of an evaluated light sample that the final pass reads.\<close>

record EvaluatedLightSample =
  e_dir :: float3
  e_distance :: float
  e_geomFactor :: float

text \<open>
  The pass with its external evaluators: \<open>ef_evalLightSample\<close> is
  \<open>lights.evalLightSample\<close> at the context's position, \<open>ef_evalVisibility\<close> the
  context's visibility ray, \<open>ef_evalEmission\<close> is \<open>lights.evalEmission\<close>, and
  \<open>ef_emission\<close> the emission stored in the context.
\<close>

record EvaluateFinalSamples =
  ef_kUseVisibility :: bool
  ef_evalLightSample :: "LightSample \<Rightarrow> EvaluatedLightSample"
  ef_evalVisibility :: "EvaluatedLightSample \<Rightarrow> float"
  ef_evalEmission :: "LightSample \<Rightarrow> float3 \<Rightarrow> float3"
  ef_emission :: float3

definition float3_neg :: "float3 \<Rightarrow> float3" where
  "float3_neg v = (case v of (x, y, z) \<Rightarrow> (- x, - y, - z))"

definition evalPathIncidentRadiance ::
  "EvaluateFinalSamples \<Rightarrow> Reservoir \<Rightarrow> FinalSample \<Rightarrow> float3 \<times> FinalSample" where
  "evalPathIncidentRadiance this reservoir finalSample =
     (let finalSample' =
        (if r_pathSample reservoir = 1
         then finalSample\<lparr>f_Li := float3_scale (r_weight reservoir) (ef_emission this)\<rparr>
         else if r_pathSample reservoir = 2 \<and> isLightSampleValid reservoir
         then
           (let evaluatedLightSample = ef_evalLightSample this (r_lightSample reservoir);
                visibility = (if ef_kUseVisibility this
                              then ef_evalVisibility this evaluatedLightSample else 1)
            in if 0 < visibility
               then
                 (let finalSample1 = finalSample\<lparr>f_dir := e_dir evaluatedLightSample\<rparr>;
                      finalSample2 = finalSample1\<lparr>f_distance := e_distance evaluatedLightSample\<rparr>
                  in finalSample2\<lparr>f_Li :=
                       float3_scale (r_weight reservoir * e_geomFactor evaluatedLightSample)
                         (ef_evalEmission this (r_lightSample reservoir)
                            (float3_neg (f_dir finalSample2)))\<rparr>)
               else finalSample)
         else finalSample)
      in (f_Li finalSample', finalSample'))"

section \<open>The closed forms of the specification\<close>

text \<open>
  The four pairwise-MIS weights and the M-factor as the specification words
  them, for comparison with the functions of \<open>Resampling.slang\<close>.
\<close>

definition spec_nonDefensiveNonCanonical :: "float \<Rightarrow> float \<Rightarrow> float \<Rightarrow> float \<Rightarrow> float \<Rightarrow> float" where
  "spec_nonDefensiveNonCanonical mSum mCand p_i mCanon p_c =
     (if float_eq p_c 0 then 0 else mCand * p_i / ((mSum - mCanon) * p_i + mCanon * p_c))"

definition spec_nonDefensiveCanonical :: "float \<Rightarrow> float \<Rightarrow> float \<Rightarrow> float \<Rightarrow> float \<Rightarrow> float" where
  "spec_nonDefensiveCanonical mSum mCand p_i mCanon p_c =
     (mCand / (mSum - mCanon)) * (mCanon * p_c) / ((mSum - mCanon) * p_i + mCanon * p_c)"

definition spec_defensiveNonCanonical :: "float \<Rightarrow> float \<Rightarrow> float \<Rightarrow> float \<Rightarrow> float \<Rightarrow> float" where
  "spec_defensiveNonCanonical mSum mCand p_i mCanon p_c =
     (mCand / mSum) * ((mSum - mCanon) * p_i) / ((mSum - mCanon) * p_i + mCanon * p_c)"

definition spec_defensiveCanonical :: "float \<Rightarrow> float \<Rightarrow> float \<Rightarrow> float \<Rightarrow> float \<Rightarrow> float" where
  "spec_defensiveCanonical mSum mCand p_i mCanon p_c =
     (mCand / mSum) * (mCanon * p_c) / ((mSum - mCanon) * p_i + mCanon * p_c)"

definition spec_mFactor :: "float \<Rightarrow> float \<Rightarrow> float" where
  "spec_mFactor targetPdfCandidateAtOther targetPdfCandidate =
     clamp (pow (fmin targetPdfCandidateAtOther targetPdfCandidate
                   / fmax targetPdfCandidateAtOther targetPdfCandidate) 8) 0 1"

text \<open>Membership in the closed interval \<open>[0, 1]\<close>, by the shader's comparisons
  (a NaN is not a member).\<close>

definition inUnitInterval :: "float \<Rightarrow> bool" where
  "inUnitInterval x = (0 \<le> x \<and> x \<le> 1)"

section \<open>Concrete inputs\<close>

text \<open>Small inputs on which the stages are evaluated below.  All their numbers
  are small integers and halves.\<close>

definition example_lightSample :: LightSample where
  "example_lightSample = \<lparr>kind = Emissive, index = 0, uv = (0, 0)\<rparr>"

definition example_reservoir :: "uint \<Rightarrow> float \<Rightarrow> float \<Rightarrow> Reservoir" where
  "example_reservoir m w p =
     \<lparr>r_lightSample = example_lightSample, r_M = m, r_weight = w, r_pathSample = 2,
      r_targetPdf = p\<rparr>"

text \<open>A state that holds a valid sample and has seen three candidates.\<close>

definition example_state :: "float \<Rightarrow> float \<Rightarrow> float \<Rightarrow> RisState" where
  "example_state weightSum targetPdf weight =
     \<lparr>s_lightSample = example_lightSample, s_pathSample = 2, s_weightSum = weightSum,
      s_M = Finite 3, s_weight = weight, s_targetPdf = targetPdf, s_canonicalWeight = 0\<rparr>"

definition example_candidate :: "float \<Rightarrow> float \<Rightarrow> float \<Rightarrow> Candidate" where
  "example_candidate pHat p u =
     \<lparr>c_lightSample = example_lightSample, c_p = p, c_misWeight = 1, c_pHat = pHat, c_u = u\<rparr>"

text \<open>One light candidate with \<open>pHat = 2\<close> and \<open>p = 1\<close>, selected; the visibility
  ray reports \<open>visibility\<close>.\<close>

definition example_initial :: "float \<Rightarrow> InitialResampling" where
  "example_initial visibility =
     \<lparr>i_frameDim = (4, 4), i_kCheckVisibility = True, i_resampleEmissionMode = 0,
      i_OneMergedReservoir = 1, i_surfaceValid = True, i_emissionTargetPdf = 0,
      i_lightCandidates = [example_candidate (Finite 2) 1 0], i_brdfCandidates = [],
      i_emission_u = 0, i_visibility = (\<lambda>ls. visibility)\<rparr>"

text \<open>Two light candidates and no BRDF candidate, with the weights
  \<open>p / (2 * p)\<close> that \<open>evalBalanceHeuristicMIS\<close> gives them: the first is
  selected, the second has the source pdf \<open>p = 0\<close>, hence the weight \<open>0 / 0\<close>,
  and is not selected.\<close>

definition example_initial_zero_pdf :: InitialResampling where
  "example_initial_zero_pdf =
     (example_initial 1)
       \<lparr>i_lightCandidates :=
          [\<lparr>c_lightSample = example_lightSample, c_p = Finite 1,
             c_misWeight = Finite (1 / 2), c_pHat = Finite 1, c_u = Finite 0\<rparr>,
           \<lparr>c_lightSample = example_lightSample, c_p = Finite 0,
             c_misWeight = NaN, c_pHat = Finite 1, c_u = Finite (1 / 2)\<rparr>]\<rparr>"

text \<open>A current reservoir with \<open>M = 1\<close> and a history with \<open>M = 1000\<close>, of target
  value \<open>p\<close> at both pixels, under \<open>kMaxHistoryLength = 20\<close>.\<close>

definition example_temporal :: "float \<Rightarrow> TemporalResampling" where
  "example_temporal p =
     \<lparr>t_kMaxHistoryLength = 20, t_frameDim = (4, 4), t_useMFactor = True,
      t_prevPixelValid = True, t_currentReservoir = example_reservoir 1 1 p,
      t_prevReservoir = example_reservoir 1000 1 p, t_candidateTargetPdfAtOther = p,
      t_canonicalTargetPdfAtOther = p, t_u_candidate = 0, t_u_canonical = Finite (1 / 2)\<rparr>"

text \<open>A current reservoir and one accepted neighbour, both with \<open>M = 1\<close> and of
  target value \<open>p\<close> at both pixels.\<close>

definition example_spatial :: "float \<Rightarrow> SpatialResampling" where
  "example_spatial p =
     \<lparr>sp_frameDim = (4, 4), sp_useMFactor = True, sp_rejectNeighborPixelForNormalDepth = True,
      sp_rejectNeighborPixelForHitType = True, sp_currentReservoir = example_reservoir 1 1 p,
      sp_currCenterSurfaceValid = True,
      sp_neighbors = [\<lparr>n_pixelValid = True, n_normalDepthValid = True, n_surfaceValid = True,
                        n_reservoir = example_reservoir 1 1 p, n_candidateTargetPdfAtOther = p,
                        n_canonicalTargetPdfAtOther = p, n_u = 0\<rparr>],
      sp_u_canonical = Finite (1 / 2)\<rparr>"

text \<open>The temporal input \<open>example_temporal 1\<close> with an empty history (a reservoir
  with \<open>M = 0\<close> and an invalid sample, of target value 0 at the current pixel),
  and the same input with a full history under \<open>kMaxHistoryLength = 0\<close>.\<close>

definition example_temporal_empty_history :: TemporalResampling where
  "example_temporal_empty_history =
     (example_temporal (Finite 1))
       \<lparr>t_prevReservoir := Reservoir_createEmpty 2, t_candidateTargetPdfAtOther := Finite 0\<rparr>"

definition example_temporal_zero_length :: TemporalResampling where
  "example_temporal_zero_length = (example_temporal (Finite 1))\<lparr>t_kMaxHistoryLength := 0\<rparr>"

text \<open>The spatial input \<open>example_spatial 1\<close> with an empty neighbour in place of
  its neighbour.\<close>

definition example_spatial_empty_neighbor :: SpatialResampling where
  "example_spatial_empty_neighbor =
     (example_spatial (Finite 1))
       \<lparr>sp_neighbors := [\<lparr>n_pixelValid = True, n_normalDepthValid = True,
                           n_surfaceValid = True, n_reservoir = Reservoir_createEmpty 2,
                           n_candidateTargetPdfAtOther = Finite 0,
                           n_canonicalTargetPdfAtOther = Finite 1, n_u = Finite 0\<rparr>]\<rparr>"

definition example_final :: EvaluateFinalSamples where
  "example_final =
     \<lparr>ef_kUseVisibility = True,
      ef_evalLightSample = (\<lambda>ls. \<lparr>e_dir = (0, 0, 1), e_distance = 1, e_geomFactor = 1\<rparr>),
      ef_evalVisibility = (\<lambda>e. 0),
      ef_evalEmission = (\<lambda>ls d. (1, 1, 1)),
      ef_emission = float3_zero\<rparr>"

section \<open>Arithmetic of the scalar model\<close>

lemma float_arith_simps [simp]:
  "Finite x + Finite y = Finite (x + y)"
  "Finite x - Finite y = Finite (x - y)"
  "Finite x * Finite y = Finite (x * y)"
  "(Finite x < Finite y) = (x < y)"
  "(Finite x \<le> Finite y) = (x \<le> y)"
  "(0::float) = Finite 0"
  "(1::float) = Finite 1"
  by (auto simp: plus_float_def minus_float_def times_float_def less_float_def
      less_eq_float_def zero_float_def one_float_def float_eq_def)

lemma float_div_Finite:
  "Finite x / Finite y =
     (if y \<noteq> 0 then Finite (x / y)
      else if 0 < x then PosInf else if x < 0 then NegInf else NaN)"
  by (simp add: divide_float_def)

lemma float_mul_one [simp]: "a * Finite 1 = a"
  by (cases a) (simp_all add: times_float_def)

lemma float_add_zero_left [simp]: "Finite 0 + a = a"
  by (cases a) (simp_all add: plus_float_def)

section \<open>Pairwise-MIS weights\<close>

lemma pairwiseMIS_zero_pc:
  "pairwiseMIS_nonDefensiveNonCanonical mSum mCand p_i mCanon (Finite 0) out_J = Finite 0"
  "pairwiseMIS_nonDefensiveCanonical mSum mCand p_i mCanon (Finite 0) out_J = Finite 0"
  "pairwiseMIS_defensiveNonCanonical mSum mCand p_i mCanon (Finite 0) out_J = Finite 0"
  "pairwiseMIS_defensiveCanonical mSum mCand p_i mCanon (Finite 0) out_J = Finite 0"
  by (simp_all add: pairwiseMIS_nonDefensiveNonCanonical_def pairwiseMIS_nonDefensiveCanonical_def
      pairwiseMIS_defensiveNonCanonical_def pairwiseMIS_defensiveCanonical_def float_eq_def Let_def)

section \<open>Reservoirs\<close>

lemma createInvalid_not_valid [simp]: "\<not> isValid createInvalid"
  by (simp add: isValid_def createInvalid_def)

lemma Reservoir_createEmpty_fields [simp]:
  "r_M (Reservoir_createEmpty p) = 0"
  "r_weight (Reservoir_createEmpty p) = Finite 0"
  "r_lightSample (Reservoir_createEmpty p) = createInvalid"
  "r_pathSample (Reservoir_createEmpty p) = p"
  "r_targetPdf (Reservoir_createEmpty p) = Finite 0"
  by (simp_all add: Reservoir_createEmpty_def)

lemma toReservoir_nonfinite:
  "isinf (s_weight st) \<or> isnan (s_weight st) \<Longrightarrow>
     toReservoir st = Reservoir_createEmpty (s_pathSample st)"
  by (simp add: toReservoir_def Let_def)

lemma toReservoir_finite:
  "\<not> isinf (s_weight st) \<Longrightarrow> \<not> isnan (s_weight st) \<Longrightarrow>
     toReservoir st =
       \<lparr>r_lightSample = s_lightSample st, r_M = uint_of_float (s_M st),
        r_weight = s_weight st, r_pathSample = s_pathSample st,
        r_targetPdf = s_targetPdf st\<rparr>"
  by (simp add: toReservoir_def Let_def)

lemma finalizeWeight_fields [simp]:
  "s_weight (finalizeWeight st) =
     (if 0 < s_targetPdf st then s_weightSum st / s_targetPdf st else Finite 0)"
  "s_targetPdf (finalizeWeight st) = s_targetPdf st"
  "s_weightSum (finalizeWeight st) = s_weightSum st"
  "s_lightSample (finalizeWeight st) = s_lightSample st"
  "s_pathSample (finalizeWeight st) = s_pathSample st"
  "s_M (finalizeWeight st) = s_M st"
  by (simp_all add: finalizeWeight_def)

lemma PosInf_div_positive: "0 < t \<Longrightarrow> isinf (PosInf / t) \<or> isnan (PosInf / t)"
  by (cases t) (simp_all add: divide_float_def isinf_def isnan_def less_float_def)

lemma not_less_NaN [simp]: "\<not> a < NaN" "\<not> NaN < a"
  by (cases a; simp add: less_float_def)+

lemma InitialResampling_risState_weight:
  "s_weight (InitialResampling_risState this) =
     (if 0 < s_targetPdf (InitialResampling_risState this)
      then s_weightSum (InitialResampling_risState this) / s_targetPdf (InitialResampling_risState this)
      else Finite 0)"
  by (simp add: InitialResampling_risState_def Let_def)

lemma TemporalResampling_risState_weight:
  "s_weight (TemporalResampling_risState this) =
     (if 0 < s_targetPdf (TemporalResampling_risState this)
      then s_weightSum (TemporalResampling_risState this) / s_targetPdf (TemporalResampling_risState this)
      else Finite 0)"
  by (simp add: TemporalResampling_risState_def Let_def)

lemma SpatialResampling_risState_weight:
  "s_weight (SpatialResampling_risState this) =
     (if 0 < s_targetPdf (SpatialResampling_risState this)
      then s_weightSum (SpatialResampling_risState this) / s_targetPdf (SpatialResampling_risState this)
      else Finite 0)"
  by (simp add: SpatialResampling_risState_def Let_def split: prod.split)

lemma float_eq_zero_not_positive: "float_eq x 0 \<Longrightarrow> \<not> 0 < x"
  by (simp add: float_eq_def)

section \<open>The stages on the concrete inputs\<close>

lemmas float_op_defs = plus_float_def minus_float_def times_float_def divide_float_def
  less_float_def less_eq_float_def float_eq_def fmin_def fmax_def clamp_def
  isinf_def isnan_def float_of_uint_def

lemmas merge_defs = streamingInitialResampleMIS_def streamingInitialResampleMIS_path_def
  temporalResamplePointReservoirPairwiseMIS_def spatialResamplePointReservoirPairwiseMIS_def
  streamingResampleFinalizeMis_def mFactor_def
  pairwiseMIS_nonDefensiveNonCanonical_def pairwiseMIS_nonDefensiveCanonical_def
  pairwiseMIS_defensiveNonCanonical_def pairwiseMIS_defensiveCanonical_def
  RisState_createEmpty_def RisState_createEmpty_from_def Reservoir_createEmpty_def
  toReservoir_def finalizeWeight_def createInvalid_def isValid_def outOfFrame_def

lemmas example_defs = example_lightSample_def example_reservoir_def example_candidate_def
  example_initial_def example_initial_zero_pdf_def example_temporal_def example_spatial_def
  example_final_def

lemma example_initial_visible_state:
  "InitialResampling_risState (example_initial (Finite 1)) =
     \<lparr>s_lightSample = example_lightSample, s_pathSample = 2, s_weightSum = Finite 2,
      s_M = Finite 1, s_weight = Finite 1, s_targetPdf = Finite 2, s_canonicalWeight = Finite 0\<rparr>"
  by (simp add: InitialResampling_risState_def InitialResampling_streamed_def
      merge_defs example_defs float_op_defs Let_def)

lemma example_initial_occluded_state:
  "InitialResampling_risState (example_initial (Finite 0)) =
     \<lparr>s_lightSample = createInvalid, s_pathSample = 2, s_weightSum = Finite 0,
      s_M = Finite 1, s_weight = Finite 0, s_targetPdf = Finite 0, s_canonicalWeight = Finite 0\<rparr>"
  by (simp add: InitialResampling_risState_def InitialResampling_streamed_def
      merge_defs example_defs float_op_defs Let_def)

lemma example_temporal_state:
  "TemporalResampling_risState (example_temporal (Finite 1)) =
     \<lparr>s_lightSample = example_lightSample, s_pathSample = 2, s_weightSum = Finite 1,
      s_M = Finite 21, s_weight = Finite 1, s_targetPdf = Finite 1,
      s_canonicalWeight = Finite (1 / 21)\<rparr>"
  by (simp add: TemporalResampling_risState_def TemporalResampling_prevReservoir_def
      merge_defs example_defs float_op_defs Let_def)

lemma example_temporal_zero_state:
  "TemporalResampling_risState (example_temporal (Finite 0)) =
     \<lparr>s_lightSample = createInvalid, s_pathSample = 2, s_weightSum = Finite 0,
      s_M = Finite 21, s_weight = Finite 0, s_targetPdf = Finite 0,
      s_canonicalWeight = Finite 0\<rparr>"
  by (simp add: TemporalResampling_risState_def TemporalResampling_prevReservoir_def
      merge_defs example_defs float_op_defs Let_def)

lemma example_spatial_state:
  "SpatialResampling_risState (example_spatial (Finite 1)) =
     \<lparr>s_lightSample = example_lightSample, s_pathSample = 2, s_weightSum = Finite 1,
      s_M = Finite 1, s_weight = Finite 1, s_targetPdf = Finite 1,
      s_canonicalWeight = Finite (3 / 4)\<rparr>"
  by (simp add: SpatialResampling_risState_def neighborBit_def
      merge_defs example_defs float_op_defs Let_def)

lemma example_spatial_zero_state:
  "SpatialResampling_risState (example_spatial (Finite 0)) =
     \<lparr>s_lightSample = createInvalid, s_pathSample = 2, s_weightSum = Finite 0,
      s_M = Finite 1, s_weight = Finite 0, s_targetPdf = Finite 0,
      s_canonicalWeight = Finite (1 / 2)\<rparr>"
  by (simp add: SpatialResampling_risState_def neighborBit_def
      merge_defs example_defs float_op_defs Let_def)

section \<open>Merges and stages\<close>

lemma temporal_merge_M:
  "s_M (snd (temporalResamplePointReservoirPairwiseMIS state canonicalReservoir
               candidateReservoir candidateTargetPdfAtOther canonicalTargetPdfAtOther
               useMFactor confidenceWeightSum intersectAreaSize u))
   = s_M state + float_of_uint (r_M candidateReservoir) * intersectAreaSize
       * (if useMFactor
          then fmin (mFactor (r_targetPdf candidateReservoir) candidateTargetPdfAtOther)
                    (mFactor canonicalTargetPdfAtOther (r_targetPdf canonicalReservoir))
          else Finite 1)"
  by (simp add: temporalResamplePointReservoirPairwiseMIS_def Let_def)

lemma spatial_merge_M:
  "s_M (snd (spatialResamplePointReservoirPairwiseMIS state canonicalReservoir
               candidateReservoir candidateTargetPdfAtOther canonicalTargetPdfAtOther
               useMFactor confidenceWeightSum u))
   = s_M state + float_of_uint (r_M candidateReservoir)
       * (if useMFactor
          then fmin (mFactor (r_targetPdf candidateReservoir) candidateTargetPdfAtOther)
                    (mFactor canonicalTargetPdfAtOther (r_targetPdf canonicalReservoir))
          else Finite 1)"
  by (simp add: spatialResamplePointReservoirPairwiseMIS_def Let_def)

lemma finalize_merge_M:
  "s_M (snd (streamingResampleFinalizeMis state canonicalReservoir canonicalTargetPdf u))
   = s_M state + float_of_uint (r_M canonicalReservoir)"
  by (simp add: streamingResampleFinalizeMis_def Let_def)

lemma temporal_M:
  "s_M (TemporalResampling_risState t) =
     float_of_uint (r_M (TemporalResampling_prevReservoir t))
       * (if t_useMFactor t
          then fmin (mFactor (r_targetPdf (t_prevReservoir t)) (t_candidateTargetPdfAtOther t))
                    (mFactor (t_canonicalTargetPdfAtOther t) (r_targetPdf (t_currentReservoir t)))
          else Finite 1)
     + float_of_uint (r_M (t_currentReservoir t))"
  by (simp add: TemporalResampling_risState_def Let_def finalize_merge_M temporal_merge_M
      RisState_createEmpty_from_def RisState_createEmpty_def TemporalResampling_prevReservoir_def)

lemma unat_min: "unat (min a b) = min (unat a) (unat b)"
  for a b :: "'a::len word"
  by (simp add: min_def word_le_nat_alt)

lemma temporal_clamp_unat:
  "unat (r_M (t_currentReservoir t)) * unat (t_kMaxHistoryLength t) < 2 ^ 32 \<Longrightarrow>
   unat (r_M (TemporalResampling_prevReservoir t))
     = min (unat (r_M (t_prevReservoir t)))
           (unat (r_M (t_currentReservoir t)) * unat (t_kMaxHistoryLength t))"
proof -
  assume "unat (r_M (t_currentReservoir t)) * unat (t_kMaxHistoryLength t) < 2 ^ 32"
  then have "unat (r_M (t_currentReservoir t) * t_kMaxHistoryLength t)
      = unat (r_M (t_currentReservoir t)) * unat (t_kMaxHistoryLength t)"
    using unat_mult_lem [of "r_M (t_currentReservoir t)" "t_kMaxHistoryLength t"] by simp
  then show ?thesis
    by (simp add: TemporalResampling_prevReservoir_def unat_min)
qed

lemma uint_of_float_one [simp]: "uint_of_float (Finite 1) = 1"
  by simp

lemma InitialResampling_risState_M [simp]:
  "s_M (InitialResampling_risState this) = Finite 1"
  by (simp add: InitialResampling_risState_def Let_def)

lemma InitialResampling_stored_M:
  "r_M (toReservoir (InitialResampling_risState this)) =
     (if isinf (s_weight (InitialResampling_risState this))
         \<or> isnan (s_weight (InitialResampling_risState this)) then 0 else 1)"
  by (simp add: toReservoir_nonfinite toReservoir_finite)

lemma evalPathIncidentRadiance_invalid:
  "r_pathSample r = 2 \<Longrightarrow> \<not> isLightSampleValid r \<Longrightarrow>
     evalPathIncidentRadiance ef r finalSample = (f_Li finalSample, finalSample)"
  by (simp add: evalPathIncidentRadiance_def)

section \<open>Claims\<close>

text \<open>
  C1.  \<open>streamingInitialResampleMIS\<close>, in the overload that carries
  \<open>pHat_withoutAlbedo\<close> and in the one without it, computes
  \<open>sampleWeight = misWeight * targetPdf / sourcePdf\<close>, adds it to \<open>weightSum\<close>, adds
  1 to \<open>M\<close>, and replaces \<open>lightSample\<close> and \<open>targetPdf\<close> exactly when
  \<open>u * weightSum < sampleWeight\<close> holds for the updated \<open>weightSum\<close>; every other
  field is left as it was, and the returned boolean is that test.
\<close>

theorem streamingInitialResampleMIS_update:
  "streamingInitialResampleMIS_pHat state lightSample targetPdf sourcePdf misWeight
       pHat_withoutAlbedo u =
     (let sampleWeight = misWeight * targetPdf / sourcePdf;
          weightSum' = s_weightSum state + sampleWeight;
          selectSample = (u * weightSum' < sampleWeight)
      in (selectSample,
          state\<lparr>s_weightSum := weightSum', s_M := s_M state + 1,
                s_lightSample := (if selectSample then lightSample else s_lightSample state),
                s_targetPdf := (if selectSample then targetPdf else s_targetPdf state)\<rparr>))
   \<and> streamingInitialResampleMIS state lightSample targetPdf sourcePdf misWeight u =
     streamingInitialResampleMIS_pHat state lightSample targetPdf sourcePdf misWeight
       pHat_withoutAlbedo u"
  by (simp add: streamingInitialResampleMIS_pHat_def streamingInitialResampleMIS_def Let_def)

text \<open>
  C2, as the claim states it, fails: with \<open>p_c = 0\<close> the closed form of
  \<open>defensiveNonCanonical\<close> at \<open>mSum = 2\<close>, \<open>mCand = 1\<close>, \<open>p_i = 1\<close>, \<open>mCanon = 1\<close>
  is \<open>1/2\<close>, and the function returns 0.
\<close>

theorem pairwiseMIS_closed_form_counterexample:
  "pairwiseMIS_defensiveNonCanonical (Finite 2) (Finite 1) (Finite 1) (Finite 1) (Finite 0) 1
     = Finite 0
   \<and> spec_defensiveNonCanonical (Finite 2) (Finite 1) (Finite 1) (Finite 1) (Finite 0)
     = Finite (1 / 2)"
  by (simp add: pairwiseMIS_zero_pc spec_defensiveNonCanonical_def float_div_Finite)

text \<open>
  C2, amended.  Each of the four functions, called with \<open>out_J\<close> at its default,
  returns 0 when \<open>p_c == 0\<close> and the closed form of the specification otherwise.
\<close>

theorem pairwiseMIS_closed_form:
  "pairwiseMIS_nonDefensiveNonCanonical mSum mCand p_i mCanon p_c 1
     = spec_nonDefensiveNonCanonical mSum mCand p_i mCanon p_c
   \<and> pairwiseMIS_nonDefensiveCanonical mSum mCand p_i mCanon p_c 1
     = (if float_eq p_c 0 then 0 else spec_nonDefensiveCanonical mSum mCand p_i mCanon p_c)
   \<and> pairwiseMIS_defensiveNonCanonical mSum mCand p_i mCanon p_c 1
     = (if float_eq p_c 0 then 0 else spec_defensiveNonCanonical mSum mCand p_i mCanon p_c)
   \<and> pairwiseMIS_defensiveCanonical mSum mCand p_i mCanon p_c 1
     = (if float_eq p_c 0 then 0 else spec_defensiveCanonical mSum mCand p_i mCanon p_c)"
  by (simp add: pairwiseMIS_nonDefensiveNonCanonical_def pairwiseMIS_nonDefensiveCanonical_def
      pairwiseMIS_defensiveNonCanonical_def pairwiseMIS_defensiveCanonical_def
      spec_nonDefensiveNonCanonical_def spec_nonDefensiveCanonical_def
      spec_defensiveNonCanonical_def spec_defensiveCanonical_def Let_def)

text \<open>
  C5.  The inputs \<open>mSum = 1\<close>, \<open>mCand = 0\<close>, \<open>mCanon = 1\<close>, \<open>p_i = p_c = 1\<close> are
  non-negative with \<open>mCanon + mCand \<le> mSum\<close> and \<open>mSum > 0\<close>; they are the arguments
  of the temporal merge's call of \<open>nonDefensiveCanonical\<close> when the history is
  empty or \<open>kMaxHistoryLength\<close> is 0.  There \<open>nonDefensiveCanonical\<close> divides 0 by
  \<open>mSum - mCanon = 0\<close> and returns NaN, which is not in \<open>[0, 1]\<close>, where the
  other three functions return 0.  The NaN enters \<open>canonicalWeight\<close> and
  \<open>weightSum\<close>, no sample is selected, and the temporal pass stores a reservoir
  with an invalid sample and weight 0 in place of the valid current one; the
  spatial pass, which uses the defensive pair, keeps the current reservoir
  against an empty neighbour.
\<close>

theorem nonDefensiveCanonical_empty_history:
  "pairwiseMIS_nonDefensiveCanonical (Finite 1) (Finite 0) (Finite 1) (Finite 1) (Finite 1) 1 = NaN
   \<and> \<not> inUnitInterval
         (pairwiseMIS_nonDefensiveCanonical (Finite 1) (Finite 0) (Finite 1) (Finite 1) (Finite 1) 1)
   \<and> pairwiseMIS_nonDefensiveNonCanonical (Finite 1) (Finite 0) (Finite 1) (Finite 1) (Finite 1) 1
       = Finite 0
   \<and> pairwiseMIS_defensiveNonCanonical (Finite 1) (Finite 0) (Finite 1) (Finite 1) (Finite 1) 1
       = Finite 0
   \<and> pairwiseMIS_defensiveCanonical (Finite 1) (Finite 0) (Finite 1) (Finite 1) (Finite 1) 1
       = Finite 0
   \<and> t_currentReservoir example_temporal_empty_history
       = example_reservoir 1 (Finite 1) (Finite 1)
   \<and> TemporalResampling_process example_temporal_empty_history (0, 0)
       = Some \<lparr>r_lightSample = createInvalid, r_M = 1, r_weight = Finite 0, r_pathSample = 2,
               r_targetPdf = Finite 0\<rparr>
   \<and> TemporalResampling_process example_temporal_zero_length (0, 0)
       = Some \<lparr>r_lightSample = createInvalid, r_M = 1, r_weight = Finite 0, r_pathSample = 2,
               r_targetPdf = Finite 0\<rparr>
   \<and> SpatialResampling_process example_spatial_empty_neighbor (0, 0)
       = Some (example_reservoir 1 (Finite 1) (Finite 1))"
proof -
  have nan: "pairwiseMIS_nonDefensiveCanonical (Finite 1) (Finite 0) (Finite 1) (Finite 1)
      (Finite 1) 1 = NaN"
    by (simp add: pairwiseMIS_nonDefensiveCanonical_def float_eq_def float_div_Finite
        times_float_def divide_float_def)
  have outside: "\<not> inUnitInterval (pairwiseMIS_nonDefensiveCanonical (Finite 1) (Finite 0)
      (Finite 1) (Finite 1) (Finite 1) 1)"
    using nan by (simp add: inUnitInterval_def less_eq_float_def float_eq_def)
  have siblings:
    "pairwiseMIS_nonDefensiveNonCanonical (Finite 1) (Finite 0) (Finite 1) (Finite 1) (Finite 1) 1
       = Finite 0"
    "pairwiseMIS_defensiveNonCanonical (Finite 1) (Finite 0) (Finite 1) (Finite 1) (Finite 1) 1
       = Finite 0"
    "pairwiseMIS_defensiveCanonical (Finite 1) (Finite 0) (Finite 1) (Finite 1) (Finite 1) 1
       = Finite 0"
    by (simp_all add: pairwiseMIS_nonDefensiveNonCanonical_def
        pairwiseMIS_defensiveNonCanonical_def pairwiseMIS_defensiveCanonical_def
        float_eq_def float_div_Finite)
  have current: "t_currentReservoir example_temporal_empty_history
      = example_reservoir 1 (Finite 1) (Finite 1)"
    by (simp add: example_temporal_empty_history_def example_temporal_def)
  have empty: "TemporalResampling_process example_temporal_empty_history (0, 0)
      = Some \<lparr>r_lightSample = createInvalid, r_M = 1, r_weight = Finite 0, r_pathSample = 2,
              r_targetPdf = Finite 0\<rparr>"
    by (simp add: TemporalResampling_process_def TemporalResampling_risState_def
        TemporalResampling_prevReservoir_def example_temporal_empty_history_def
        merge_defs example_defs float_op_defs Let_def)
  have zero: "TemporalResampling_process example_temporal_zero_length (0, 0)
      = Some \<lparr>r_lightSample = createInvalid, r_M = 1, r_weight = Finite 0, r_pathSample = 2,
              r_targetPdf = Finite 0\<rparr>"
    by (simp add: TemporalResampling_process_def TemporalResampling_risState_def
        TemporalResampling_prevReservoir_def example_temporal_zero_length_def
        merge_defs example_defs float_op_defs Let_def)
  have spatial: "SpatialResampling_process example_spatial_empty_neighbor (0, 0)
      = Some (example_reservoir 1 (Finite 1) (Finite 1))"
    by (simp add: SpatialResampling_process_def SpatialResampling_risState_def neighborBit_def
        example_spatial_empty_neighbor_def merge_defs example_defs float_op_defs Let_def)
  from nan outside siblings current empty zero spatial show ?thesis
    by blast
qed

text \<open>
  C3, as the claim states it, fails: a state with \<open>targetPdf = NaN\<close> finalizes to
  the weight 0, because \<open>NaN > 0\<close> is false, and a weight of 0 is finite:
  \<open>toReservoir\<close> keeps the sample count and the valid light sample.
\<close>

theorem toReservoir_guard_counterexample:
  "s_targetPdf (example_state 1 NaN 0) = NaN
   \<and> r_M (toReservoir (finalizeWeight (example_state 1 NaN 0))) = 3
   \<and> isValid (r_lightSample (toReservoir (finalizeWeight (example_state 1 NaN 0))))"
  by (simp add: example_state_def example_lightSample_def toReservoir_def finalizeWeight_def
      isinf_def isnan_def isValid_def Let_def)

text \<open>
  C3, amended.  A state whose \<open>weight\<close> is infinite or NaN converts to the empty
  reservoir (\<open>M = 0\<close>, \<open>weight = 0\<close>, invalid light sample), and a state whose
  \<open>weight\<close> is finite keeps its light sample, weight, path sample and target pdf.
  Under the stages' finalization, \<open>weightSum = +Inf\<close> with a positive
  \<open>targetPdf\<close> gives the empty reservoir, whereas \<open>targetPdf = NaN\<close> gives the
  weight 0 and a reservoir that keeps the light sample, the sample count and
  the NaN target pdf.
\<close>

theorem toReservoir_guard:
  "(isinf (s_weight a) \<or> isnan (s_weight a) \<longrightarrow>
      r_M (toReservoir a) = 0 \<and> r_weight (toReservoir a) = 0
      \<and> \<not> isValid (r_lightSample (toReservoir a)))
   \<and> (\<not> isinf (s_weight b) \<and> \<not> isnan (s_weight b) \<longrightarrow>
      r_lightSample (toReservoir b) = s_lightSample b \<and> r_weight (toReservoir b) = s_weight b
      \<and> r_pathSample (toReservoir b) = s_pathSample b
      \<and> r_targetPdf (toReservoir b) = s_targetPdf b)
   \<and> (s_weightSum c = PosInf \<and> 0 < s_targetPdf c \<longrightarrow>
      r_M (toReservoir (finalizeWeight c)) = 0 \<and> r_weight (toReservoir (finalizeWeight c)) = 0
      \<and> \<not> isValid (r_lightSample (toReservoir (finalizeWeight c))))
   \<and> (s_targetPdf d = NaN \<longrightarrow>
      s_weight (finalizeWeight d) = 0
      \<and> r_lightSample (toReservoir (finalizeWeight d)) = s_lightSample d
      \<and> r_M (toReservoir (finalizeWeight d)) = uint_of_float (s_M d)
      \<and> r_targetPdf (toReservoir (finalizeWeight d)) = NaN)"
proof (intro conjI impI)
  assume "s_targetPdf d = NaN"
  then have w: "s_weight (finalizeWeight d) = Finite 0" by simp
  then show "s_weight (finalizeWeight d) = 0" by simp
  have "\<not> isinf (s_weight (finalizeWeight d))" "\<not> isnan (s_weight (finalizeWeight d))"
    using w by (simp_all add: isinf_def isnan_def)
  then have r: "toReservoir (finalizeWeight d) =
       \<lparr>r_lightSample = s_lightSample (finalizeWeight d),
        r_M = uint_of_float (s_M (finalizeWeight d)),
        r_weight = s_weight (finalizeWeight d), r_pathSample = s_pathSample (finalizeWeight d),
        r_targetPdf = s_targetPdf (finalizeWeight d)\<rparr>"
    by (rule toReservoir_finite)
  show "r_lightSample (toReservoir (finalizeWeight d)) = s_lightSample d"
    "r_M (toReservoir (finalizeWeight d)) = uint_of_float (s_M d)"
    "r_targetPdf (toReservoir (finalizeWeight d)) = NaN"
    using \<open>s_targetPdf d = NaN\<close> by (simp_all add: r)
next
  assume c: "s_weightSum c = PosInf \<and> 0 < s_targetPdf c"
  then have "isinf (s_weight (finalizeWeight c)) \<or> isnan (s_weight (finalizeWeight c))"
    using PosInf_div_positive [of "s_targetPdf c"] by simp
  then have "toReservoir (finalizeWeight c) = Reservoir_createEmpty (s_pathSample (finalizeWeight c))"
    by (rule toReservoir_nonfinite)
  then show "r_M (toReservoir (finalizeWeight c)) = 0"
    "r_weight (toReservoir (finalizeWeight c)) = 0"
    "\<not> isValid (r_lightSample (toReservoir (finalizeWeight c)))"
    by simp_all
qed (simp_all add: toReservoir_nonfinite toReservoir_finite)

theorem toReservoir_guard_witness:
  "toReservoir (example_state 1 1 NaN) = Reservoir_createEmpty 2
   \<and> toReservoir (example_state 1 1 1) = example_reservoir 3 1 1
   \<and> toReservoir (finalizeWeight (example_state PosInf 1 0)) = Reservoir_createEmpty 2
   \<and> toReservoir (finalizeWeight (example_state 1 NaN 0)) = example_reservoir 3 0 NaN"
  using toReservoir_guard [of "example_state 1 1 NaN" "example_state 1 1 1"
      "example_state PosInf 1 0" "example_state 1 NaN 0"]
  by (simp add: example_state_def example_reservoir_def toReservoir_def finalizeWeight_def
      Reservoir_createEmpty_def isinf_def isnan_def Let_def divide_float_def less_float_def)

text \<open>
  C4.  In each of the three stages, the state handed to \<open>toReservoir\<close> has
  \<open>weight = weightSum / targetPdf\<close> when \<open>targetPdf > 0\<close>, and \<open>weight = 0\<close> when
  \<open>targetPdf == 0\<close>, whatever \<open>weightSum\<close> is.
\<close>

theorem stage_finalization:
  "(0 < s_targetPdf (InitialResampling_risState i) \<longrightarrow>
      s_weight (InitialResampling_risState i)
        = s_weightSum (InitialResampling_risState i) / s_targetPdf (InitialResampling_risState i))
   \<and> (float_eq (s_targetPdf (InitialResampling_risState i0)) 0 \<longrightarrow>
      s_weight (InitialResampling_risState i0) = 0)
   \<and> (0 < s_targetPdf (TemporalResampling_risState t) \<longrightarrow>
      s_weight (TemporalResampling_risState t)
        = s_weightSum (TemporalResampling_risState t) / s_targetPdf (TemporalResampling_risState t))
   \<and> (float_eq (s_targetPdf (TemporalResampling_risState t0)) 0 \<longrightarrow>
      s_weight (TemporalResampling_risState t0) = 0)
   \<and> (0 < s_targetPdf (SpatialResampling_risState sp) \<longrightarrow>
      s_weight (SpatialResampling_risState sp)
        = s_weightSum (SpatialResampling_risState sp) / s_targetPdf (SpatialResampling_risState sp))
   \<and> (float_eq (s_targetPdf (SpatialResampling_risState sp0)) 0 \<longrightarrow>
      s_weight (SpatialResampling_risState sp0) = 0)"
proof (intro conjI impI)
  assume "0 < s_targetPdf (InitialResampling_risState i)"
  then show "s_weight (InitialResampling_risState i)
        = s_weightSum (InitialResampling_risState i) / s_targetPdf (InitialResampling_risState i)"
    using InitialResampling_risState_weight [of i] by simp
next
  assume "float_eq (s_targetPdf (InitialResampling_risState i0)) 0"
  then show "s_weight (InitialResampling_risState i0) = 0"
    using InitialResampling_risState_weight [of i0] float_eq_zero_not_positive by simp
next
  assume "0 < s_targetPdf (TemporalResampling_risState t)"
  then show "s_weight (TemporalResampling_risState t)
        = s_weightSum (TemporalResampling_risState t) / s_targetPdf (TemporalResampling_risState t)"
    using TemporalResampling_risState_weight [of t] by simp
next
  assume "float_eq (s_targetPdf (TemporalResampling_risState t0)) 0"
  then show "s_weight (TemporalResampling_risState t0) = 0"
    using TemporalResampling_risState_weight [of t0] float_eq_zero_not_positive by simp
next
  assume "0 < s_targetPdf (SpatialResampling_risState sp)"
  then show "s_weight (SpatialResampling_risState sp)
        = s_weightSum (SpatialResampling_risState sp) / s_targetPdf (SpatialResampling_risState sp)"
    using SpatialResampling_risState_weight [of sp] by simp
next
  assume "float_eq (s_targetPdf (SpatialResampling_risState sp0)) 0"
  then show "s_weight (SpatialResampling_risState sp0) = 0"
    using SpatialResampling_risState_weight [of sp0] float_eq_zero_not_positive by simp
qed

theorem stage_finalization_witness:
  "s_weight (InitialResampling_risState (example_initial (Finite 1))) = Finite 1
   \<and> s_weight (InitialResampling_risState (example_initial (Finite 0))) = 0
   \<and> s_weight (TemporalResampling_risState (example_temporal (Finite 1))) = Finite 1
   \<and> s_weight (TemporalResampling_risState (example_temporal (Finite 0))) = 0
   \<and> s_weight (SpatialResampling_risState (example_spatial (Finite 1))) = Finite 1
   \<and> s_weight (SpatialResampling_risState (example_spatial (Finite 0))) = 0"
  using stage_finalization [of "example_initial (Finite 1)" "example_initial (Finite 0)" "example_temporal (Finite 1)"
      "example_temporal (Finite 0)" "example_spatial (Finite 1)" "example_spatial (Finite 0)"]
  by (simp add: example_initial_visible_state example_initial_occluded_state
      example_temporal_state example_temporal_zero_state example_spatial_state
      example_spatial_zero_state float_eq_def float_div_Finite)

text \<open>
  C6.  Before the merge, the previous reservoir's \<open>M\<close> becomes
  \<open>min(prevM, currentM * kMaxHistoryLength)\<close>, the product taken in 32-bit
  unsigned arithmetic (it is the product of the two numbers whenever that is
  below \<open>2^32\<close>); this clamped count is the confidence weight the merge adds to
  the state's \<open>M\<close>; and for \<open>prevM = 1000\<close>, \<open>currentM = 1\<close>,
  \<open>kMaxHistoryLength = 20\<close> the reused \<open>M\<close> is 20.
\<close>

theorem temporal_history_clamp:
  "r_M (TemporalResampling_prevReservoir t)
     = min (r_M (t_prevReservoir t)) (r_M (t_currentReservoir t) * t_kMaxHistoryLength t)
   \<and> (unat (r_M (t_currentReservoir t)) * unat (t_kMaxHistoryLength t) < 2 ^ 32 \<longrightarrow>
      unat (r_M (TemporalResampling_prevReservoir t))
        = min (unat (r_M (t_prevReservoir t)))
              (unat (r_M (t_currentReservoir t)) * unat (t_kMaxHistoryLength t)))
   \<and> s_M (TemporalResampling_risState t) =
       float_of_uint (min (r_M (t_prevReservoir t))
                          (r_M (t_currentReservoir t) * t_kMaxHistoryLength t))
         * (if t_useMFactor t
            then fmin (mFactor (r_targetPdf (t_prevReservoir t)) (t_candidateTargetPdfAtOther t))
                      (mFactor (t_canonicalTargetPdfAtOther t) (r_targetPdf (t_currentReservoir t)))
            else 1)
       + float_of_uint (r_M (t_currentReservoir t))
   \<and> (r_M (t_prevReservoir t) = 1000 \<and> r_M (t_currentReservoir t) = 1
        \<and> t_kMaxHistoryLength t = 20 \<longrightarrow>
      r_M (TemporalResampling_prevReservoir t) = 20)"
  using temporal_clamp_unat [of t]
  by (simp add: temporal_M) (simp add: TemporalResampling_prevReservoir_def)

theorem temporal_history_clamp_witness:
  "r_M (t_prevReservoir (example_temporal (Finite 1))) = 1000
   \<and> r_M (t_currentReservoir (example_temporal (Finite 1))) = 1
   \<and> t_kMaxHistoryLength (example_temporal (Finite 1)) = 20
   \<and> r_M (TemporalResampling_prevReservoir (example_temporal (Finite 1))) = 20
   \<and> s_M (TemporalResampling_risState (example_temporal (Finite 1))) = Finite 21"
proof -
  have inputs: "r_M (t_prevReservoir (example_temporal (Finite 1))) = 1000"
    "r_M (t_currentReservoir (example_temporal (Finite 1))) = 1"
    "t_kMaxHistoryLength (example_temporal (Finite 1)) = 20"
    by (simp_all add: example_temporal_def example_reservoir_def)
  have "s_M (TemporalResampling_risState (example_temporal (Finite 1))) = Finite 21"
    by (simp add: example_temporal_state)
  with inputs temporal_history_clamp [of "example_temporal (Finite 1)"]
  show ?thesis by blast
qed

text \<open>
  C7, as the claim states it, fails: for a candidate whose target value is 1
  at its own pixel and 2 at the canonical pixel the claimed factor is
  \<open>(1/2)^8 = 1/256\<close>, and the merge adds the candidate's whole confidence weight.
\<close>

theorem mFactor_scaling_counterexample:
  "s_M (snd (temporalResamplePointReservoirPairwiseMIS (RisState_createEmpty 2)
               (example_reservoir 1 1 1) (example_reservoir 1 1 1) (Finite 2) (Finite 1)
               True (Finite 2) 1 0))
     = Finite 1
   \<and> s_M (RisState_createEmpty 2)
       + float_of_uint (r_M (example_reservoir 1 1 1)) * 1 * spec_mFactor (Finite 2) (Finite 1)
     = Finite (1 / 256)"
  by (simp add: temporal_merge_M mFactor_def spec_mFactor_def example_reservoir_def
      RisState_createEmpty_def float_op_defs float_div_Finite power_divide)

text \<open>
  C7, amended.  With the M-factor option enabled, the temporal and the spatial
  merge add to \<open>M\<close> the candidate's confidence weight times
  \<open>min(mFactor(candidateTargetPdf, candidateTargetPdfAtOther),
  mFactor(canonicalTargetPdfAtOther, canonicalTargetPdf))\<close>, where
  \<open>mFactor(q0, q1)\<close> is 1 when \<open>q0 == 0\<close> and \<open>clamp(min(q1 / q0, 1)^8, 0, 1)\<close>
  otherwise.
\<close>

theorem mFactor_scaling:
  "s_M (snd (temporalResamplePointReservoirPairwiseMIS state canonicalReservoir
               candidateReservoir candidateTargetPdfAtOther canonicalTargetPdfAtOther
               True confidenceWeightSum intersectAreaSize u))
     = s_M state + float_of_uint (r_M candidateReservoir) * intersectAreaSize
         * fmin (mFactor (r_targetPdf candidateReservoir) candidateTargetPdfAtOther)
                (mFactor canonicalTargetPdfAtOther (r_targetPdf canonicalReservoir))
   \<and> s_M (snd (spatialResamplePointReservoirPairwiseMIS state canonicalReservoir
               candidateReservoir candidateTargetPdfAtOther canonicalTargetPdfAtOther
               True confidenceWeightSum u))
     = s_M state + float_of_uint (r_M candidateReservoir)
         * fmin (mFactor (r_targetPdf candidateReservoir) candidateTargetPdfAtOther)
                (mFactor canonicalTargetPdfAtOther (r_targetPdf canonicalReservoir))
   \<and> mFactor q0 q1 = (if float_eq q0 0 then 1 else clamp (pow (fmin (q1 / q0) 1) 8) 0 1)"
  by (simp add: temporal_merge_M spatial_merge_M mFactor_def)

text \<open>
  C8.  With the visibility check enabled, when the sample selected by the
  streaming is a valid light sample with \<open>pathSample = 2\<close> and its visibility is
  0, the pass stores a reservoir with an invalid light sample and weight 0
  whose \<open>M\<close> is 1, and the final pass evaluates it to zero incident radiance.
\<close>

theorem occluded_sample_discarded:
  assumes "\<not> outOfFrame pixel (i_frameDim this)"
    and "i_surfaceValid this" and "i_kCheckVisibility this"
    and "isValid (s_lightSample (InitialResampling_streamed this))"
    and "s_pathSample (InitialResampling_streamed this) = 2"
    and "float_eq (i_visibility this (s_lightSample (InitialResampling_streamed this))) 0"
  shows "\<exists>r. InitialResampling_process this pixel = Some r
           \<and> \<not> isLightSampleValid r \<and> r_weight r = 0 \<and> r_M r = 1 \<and> r_M r \<noteq> 0
           \<and> fst (evalPathIncidentRadiance ef r FinalSample_zero) = float3_zero"
proof -
  have st: "InitialResampling_risState this = (RisState_createEmpty 2)\<lparr>s_M := Finite 1\<rparr>"
    using assms
    by (simp add: InitialResampling_risState_def Let_def finalizeWeight_def
        RisState_createEmpty_def)
  have r: "toReservoir (InitialResampling_risState this)
      = \<lparr>r_lightSample = createInvalid, r_M = 1, r_weight = Finite 0, r_pathSample = 2,
         r_targetPdf = Finite 0\<rparr>"
    by (simp add: st toReservoir_def RisState_createEmpty_def isinf_def isnan_def Let_def)
  have "fst (evalPathIncidentRadiance ef (toReservoir (InitialResampling_risState this))
               FinalSample_zero) = float3_zero"
    by (simp add: r evalPathIncidentRadiance_invalid isLightSampleValid_def FinalSample_zero_def)
  then show ?thesis
    using assms by (simp add: InitialResampling_process_def r isLightSampleValid_def)
qed

theorem occluded_sample_discarded_witness:
  "InitialResampling_process (example_initial (Finite 0)) (0, 0)
     = Some \<lparr>r_lightSample = createInvalid, r_M = 1, r_weight = Finite 0, r_pathSample = 2,
             r_targetPdf = Finite 0\<rparr>
   \<and> fst (evalPathIncidentRadiance example_final
            (the (InitialResampling_process (example_initial (Finite 0)) (0, 0)))
            FinalSample_zero) = float3_zero"
proof -
  have streamed: "InitialResampling_streamed (example_initial (Finite 0)) =
     \<lparr>s_lightSample = example_lightSample, s_pathSample = 2, s_weightSum = Finite 2,
      s_M = Finite 1, s_weight = Finite 0, s_targetPdf = Finite 2, s_canonicalWeight = Finite 0\<rparr>"
    by (simp add: InitialResampling_streamed_def merge_defs example_defs float_op_defs Let_def)
  have hyps: "\<not> outOfFrame (0, 0) (i_frameDim (example_initial (Finite 0)))"
    "i_surfaceValid (example_initial (Finite 0))" "i_kCheckVisibility (example_initial (Finite 0))"
    "isValid (s_lightSample (InitialResampling_streamed (example_initial (Finite 0))))"
    "s_pathSample (InitialResampling_streamed (example_initial (Finite 0))) = 2"
    "float_eq (i_visibility (example_initial (Finite 0))
        (s_lightSample (InitialResampling_streamed (example_initial (Finite 0))))) 0"
    by (simp_all add: streamed) (simp_all add: example_initial_def example_lightSample_def
        outOfFrame_def isValid_def float_eq_def)
  have stored: "InitialResampling_process (example_initial (Finite 0)) (0, 0)
     = Some \<lparr>r_lightSample = createInvalid, r_M = 1, r_weight = Finite 0, r_pathSample = 2,
             r_targetPdf = Finite 0\<rparr>"
    using hyps(1,2)
    by (simp add: InitialResampling_process_def example_initial_occluded_state toReservoir_def
        isinf_def isnan_def Let_def)
  from occluded_sample_discarded [OF hyps, of example_final] stored
  show ?thesis by auto
qed

text \<open>
  C10, as the claim states it, fails: on a valid surface, a candidate with
  source pdf 0 streamed after a selected one makes \<open>weightSum\<close> and the weight
  NaN, and \<open>toReservoir\<close> stores the empty reservoir, whose \<open>M\<close> is 0.
\<close>

theorem initial_sample_count_counterexample:
  "\<not> outOfFrame (0, 0) (i_frameDim example_initial_zero_pdf)
   \<and> i_surfaceValid example_initial_zero_pdf
   \<and> s_weight (InitialResampling_risState example_initial_zero_pdf) = NaN
   \<and> map_option r_M (InitialResampling_process example_initial_zero_pdf (0, 0)) = Some 0"
proof -
  have w: "s_weight (InitialResampling_risState example_initial_zero_pdf) = NaN"
    by (simp add: InitialResampling_risState_def InitialResampling_streamed_def
        merge_defs example_defs float_op_defs Let_def)
  have "toReservoir (InitialResampling_risState example_initial_zero_pdf)
      = Reservoir_createEmpty (s_pathSample (InitialResampling_risState example_initial_zero_pdf))"
    by (rule toReservoir_nonfinite) (simp add: w isnan_def)
  then show ?thesis
    using w by (simp add: InitialResampling_process_def outOfFrame_def example_initial_zero_pdf_def
        example_initial_def)
qed

text \<open>
  C10, amended.  For every pixel inside the frame the pass stores a reservoir;
  its \<open>M\<close> is 1 on the background path, and on the valid-surface path it is 1
  whenever the finalized weight is finite and 0 when that weight is infinite
  or NaN.
\<close>

theorem initial_sample_count:
  assumes "\<not> outOfFrame pixel (i_frameDim this)"
  shows "\<exists>r. InitialResampling_process this pixel = Some r
           \<and> r_M r = (if i_surfaceValid this
                          \<and> (isinf (s_weight (InitialResampling_risState this))
                              \<or> isnan (s_weight (InitialResampling_risState this)))
                       then 0 else 1)"
  using assms by (simp add: InitialResampling_process_def InitialResampling_stored_M)

theorem initial_sample_count_witness:
  "\<not> outOfFrame (0, 0) (i_frameDim (example_initial (Finite 1)))
   \<and> map_option r_M (InitialResampling_process (example_initial (Finite 1)) (0, 0)) = Some 1"
proof -
  have inside: "\<not> outOfFrame (0, 0) (i_frameDim (example_initial (Finite 1)))"
    by (simp add: outOfFrame_def example_initial_def)
  have "\<not> isinf (s_weight (InitialResampling_risState (example_initial (Finite 1))))"
    "\<not> isnan (s_weight (InitialResampling_risState (example_initial (Finite 1))))"
    by (simp_all add: example_initial_visible_state isinf_def isnan_def)
  with inside initial_sample_count [OF inside] show ?thesis
    by auto
qed

end
